theory Spec2Isabelle
  imports Main
begin

section \<open>Data model\<close>

text \<open>
  The task service of the repository (\<^verbatim>\<open>TasksService\<close>, \<^verbatim>\<open>CacheService\<close>) is embedded with
  explicit state passing. The state holds what the services act on: the rows of the task
  repository and the calls it received, the entries of the cache-manager backend and
  whether it answers, the jobs added to the queue, and the lines written by the logger.
  Every exception of the source is a value \<open>Inl e\<close> of a result; the state returned with
  it is the state at the throw.
\<close>

datatype TaskStatus = PENDING | IN_PROGRESS | COMPLETED | OVERDUE

datatype TaskPriority = LOW | MEDIUM | HIGH

text \<open>\<^verbatim>\<open>new Date(s)\<close>: the date object built from the text \<open>s\<close>.\<close>

datatype date = NewDate string

text \<open>
  The \<^verbatim>\<open>Task\<close> entity, with the columns the service code reads and writes. The entity has
  no version column: \<^verbatim>\<open>save\<close> and \<^verbatim>\<open>remove\<close> are called without any concurrency token.
\<close>

record Task =
  task_id :: string
  title :: string
  description :: "string option"
  status :: TaskStatus
  priority :: TaskPriority
  dueDate :: "date option"
  userId :: string

text \<open>\<^verbatim>\<open>CreateTaskDto\<close> and \<^verbatim>\<open>UpdateTaskDto\<close>; an absent property is \<open>None\<close>.\<close>

record CreateTaskDto =
  new_title :: string
  new_description :: "string option"
  new_status :: "TaskStatus option"
  new_priority :: "TaskPriority option"
  new_dueDate :: "string option"
  new_userId :: string

record UpdateTaskDto =
  upd_title :: "string option"
  upd_description :: "string option"
  upd_status :: "TaskStatus option"
  upd_priority :: "TaskPriority option"
  upd_dueDate :: "string option"

text \<open>
  The JavaScript values that pass through the cache: \<^verbatim>\<open>null\<close>, a string, or a task
  object.
\<close>

datatype jsvalue = JNull | JString string | JTask Task

datatype error =
    NotFoundException string
  | CacheBackendError
  | TypeError
  | MustBeEntityError

text \<open>The payload of a queue job is an object: its properties in order.\<close>

datatype field = IdField string | StatusField TaskStatus

record job =
  queue_name :: string
  job_name :: string
  job_data :: "(string \<times> field) list"

datatype level = Debug | Error

datatype log_event =
    CacheMiss string
  | CacheHit string
  | CacheSet string nat
  | CacheSetError string
  | CacheDelete string
  | CachePopulate string

text \<open>
  The calls the repository received. \<open>Refused v\<close> is a \<^verbatim>\<open>save\<close> or \<^verbatim>\<open>remove\<close> called with a
  value that is not an object, which the repository rejects before any query.
\<close>

datatype db_call = Count string | FindOne string | Save Task | Remove string | Refused jsvalue

record state =
  rows :: "string \<rightharpoonup> Task"
  db_calls :: "db_call list"
  entries :: "string \<rightharpoonup> string \<times> nat"
  available :: bool
  jobs :: "job list"
  logs :: "(level \<times> log_event) list"

text \<open>
  What the code uses and the repository does not declare: \<^verbatim>\<open>JSON.stringify\<close> and
  \<^verbatim>\<open>JSON.parse\<close> of the runtime (\<open>None\<close> when \<^verbatim>\<open>JSON.parse\<close> throws), and the column
  defaults of the entity, whose declaration is not among the sources.
\<close>

record env =
  json_stringify :: "jsvalue \<Rightarrow> string"
  json_parse :: "string \<Rightarrow> jsvalue option"
  default_status :: TaskStatus
  default_priority :: TaskPriority

section \<open>The cache-manager backend\<close>

text \<open>
  The injected \<^verbatim>\<open>cacheManager\<close>: a store of text under string keys, each entry with the
  time to live it was written with. A backend that cannot be reached (\<open>available\<close> is
  false) rejects every call. Expiry is not an operation of the service and is not
  modelled: between two calls of the service an entry stays.
\<close>

definition cm_get :: "string \<Rightarrow> state \<Rightarrow> error + string option" where
  "cm_get k s = (if available s then Inr (map_option fst (entries s k)) else Inl CacheBackendError)"

definition cm_set :: "string \<Rightarrow> string \<Rightarrow> nat \<Rightarrow> state \<Rightarrow> error + state" where
  "cm_set k d ttl s =
     (if available s then Inr (s\<lparr>entries := (entries s)(k \<mapsto> (d, ttl))\<rparr>)
      else Inl CacheBackendError)"

definition cm_del :: "string \<Rightarrow> state \<Rightarrow> error + state" where
  "cm_del k s =
     (if available s then Inr (s\<lparr>entries := (entries s)(k := None)\<rparr>)
      else Inl CacheBackendError)"

definition logger :: "level \<Rightarrow> log_event \<Rightarrow> state \<Rightarrow> state" where
  "logger l e s = s\<lparr>logs := logs s @ [(l, e)]\<rparr>"

section \<open>CacheService\<close>

definition namespace :: string where
  "namespace = ''app''"

definition buildKey :: "string \<Rightarrow> string" where
  "buildKey key = namespace @ '':'' @ key"

text \<open>
  \<^verbatim>\<open>get\<close>: the backend call is not guarded, so its rejection is thrown. An absent entry
  and the empty text are both falsy and give \<^verbatim>\<open>null\<close>. Text that \<^verbatim>\<open>JSON.parse\<close> rejects
  is returned as it is, as a string.
\<close>

definition cache_get :: "env \<Rightarrow> string \<Rightarrow> state \<Rightarrow> (error + jsvalue) \<times> state" where
  "cache_get E key s =
     (let namespacedKey = buildKey key in
      case cm_get namespacedKey s of
        Inl e \<Rightarrow> (Inl e, s)
      | Inr cached \<Rightarrow>
          (case cached of
             None \<Rightarrow> (Inr JNull, logger Debug (CacheMiss namespacedKey) s)
           | Some c \<Rightarrow>
               if c = [] then (Inr JNull, logger Debug (CacheMiss namespacedKey) s)
               else
                 (let s' = logger Debug (CacheHit namespacedKey) s in
                  case json_parse E c of
                    Some v \<Rightarrow> (Inr v, s')
                  | None \<Rightarrow> (Inr (JString c), s'))))"

text \<open>
  \<^verbatim>\<open>set\<close>: a string is stored as it is, anything else through \<^verbatim>\<open>JSON.stringify\<close>; a
  rejection of the backend is caught and logged, and \<^verbatim>\<open>set\<close> returns normally.
\<close>

definition cache_set :: "env \<Rightarrow> string \<Rightarrow> jsvalue \<Rightarrow> nat \<Rightarrow> state \<Rightarrow> state" where
  "cache_set E key v ttlSeconds s =
     (let namespacedKey = buildKey key;
          data = (case v of JString x \<Rightarrow> x | _ \<Rightarrow> json_stringify E v) in
      case cm_set namespacedKey data ttlSeconds s of
        Inr s' \<Rightarrow> logger Debug (CacheSet namespacedKey ttlSeconds) s'
      | Inl e \<Rightarrow> logger Error (CacheSetError namespacedKey) s)"

text \<open>\<^verbatim>\<open>delete\<close>: the backend call is not guarded.\<close>

definition cache_delete :: "string \<Rightarrow> state \<Rightarrow> (error + unit) \<times> state" where
  "cache_delete key s =
     (let namespacedKey = buildKey key in
      case cm_del namespacedKey s of
        Inl e \<Rightarrow> (Inl e, s)
      | Inr s' \<Rightarrow> (Inr (), logger Debug (CacheDelete namespacedKey) s'))"

text \<open>
  \<^verbatim>\<open>getOrSet\<close> is \<^verbatim>\<open>get\<close>, and, when \<^verbatim>\<open>get\<close> returned \<^verbatim>\<open>null\<close>, the rest of the body:
  \<open>getOrSet_populate\<close> logs, awaits the fetcher, stores its value and returns it. A
  fetcher that throws leaves nothing stored.
\<close>

definition getOrSet_populate ::
  "env \<Rightarrow> string \<Rightarrow> (state \<Rightarrow> (error + jsvalue) \<times> state) \<Rightarrow> nat \<Rightarrow> state
     \<Rightarrow> (error + jsvalue) \<times> state" where
  "getOrSet_populate E key fetcher ttlSeconds s =
     (case fetcher (logger Debug (CachePopulate key) s) of
        (Inl e, s') \<Rightarrow> (Inl e, s')
      | (Inr v, s') \<Rightarrow> (Inr v, cache_set E key v ttlSeconds s'))"

definition getOrSet ::
  "env \<Rightarrow> string \<Rightarrow> (state \<Rightarrow> (error + jsvalue) \<times> state) \<Rightarrow> nat \<Rightarrow> state
     \<Rightarrow> (error + jsvalue) \<times> state" where
  "getOrSet E key fetcher ttlSeconds s =
     (case cache_get E key s of
        (Inl e, s') \<Rightarrow> (Inl e, s')
      | (Inr cached, s') \<Rightarrow>
          if cached \<noteq> JNull then (Inr cached, s')
          else getOrSet_populate E key fetcher ttlSeconds s')"

definition has :: "env \<Rightarrow> string \<Rightarrow> state \<Rightarrow> (error + bool) \<times> state" where
  "has E key s =
     (case cache_get E key s of
        (Inl e, s') \<Rightarrow> (Inl e, s')
      | (Inr v, s') \<Rightarrow> (Inr (v \<noteq> JNull), s'))"

section \<open>The task repository and the queue\<close>

definition repo_count :: "string \<Rightarrow> state \<Rightarrow> nat \<times> state" where
  "repo_count i s =
     ((case rows s i of None \<Rightarrow> 0 | Some _ \<Rightarrow> 1), s\<lparr>db_calls := db_calls s @ [Count i]\<rparr>)"

definition repo_findOne :: "string \<Rightarrow> state \<Rightarrow> jsvalue \<times> state" where
  "repo_findOne i s =
     ((case rows s i of None \<Rightarrow> JNull | Some t \<Rightarrow> JTask t),
      s\<lparr>db_calls := db_calls s @ [FindOne i]\<rparr>)"

text \<open>
  \<^verbatim>\<open>tasksRepository.save(entity)\<close> works in two awaited steps. It first reads the row with
  the id of the entity (\<open>save_load\<close>). With no such row it inserts the entity. With one,
  it updates the columns in which the entity differs from the row it read, and only
  those (\<open>write_changed\<close>): a column the entity did not change keeps whatever the row holds
  at the time of the update. It returns the entity. \<open>repo_save\<close> is the two steps with
  nothing in between.
\<close>

definition save_load :: "Task \<Rightarrow> state \<Rightarrow> Task option" where
  "save_load t s = rows s (task_id t)"

definition write_changed :: "Task \<Rightarrow> Task \<Rightarrow> Task \<Rightarrow> Task" where
  "write_changed entity loaded row =
     entity\<lparr>title := (if title entity = title loaded then title row else title entity),
            description :=
              (if description entity = description loaded then description row
               else description entity),
            status := (if status entity = status loaded then status row else status entity),
            priority :=
              (if priority entity = priority loaded then priority row else priority entity),
            dueDate := (if dueDate entity = dueDate loaded then dueDate row else dueDate entity),
            userId := (if userId entity = userId loaded then userId row else userId entity)\<rparr>"

definition save_write :: "Task \<Rightarrow> Task option \<Rightarrow> state \<Rightarrow> Task \<times> state" where
  "save_write t loaded s =
     (t,
      (case loaded of
         None \<Rightarrow> s\<lparr>rows := (rows s)(task_id t \<mapsto> t)\<rparr>
       | Some l \<Rightarrow>
           (case rows s (task_id t) of
              None \<Rightarrow> s
            | Some row \<Rightarrow> s\<lparr>rows := (rows s)(task_id t \<mapsto> write_changed t l row)\<rparr>))
        \<lparr>db_calls := db_calls s @ [Save t]\<rparr>)"

definition repo_save :: "Task \<Rightarrow> state \<Rightarrow> Task \<times> state" where
  "repo_save t s = save_write t (save_load t s) s"

text \<open>\<^verbatim>\<open>save\<close> and \<^verbatim>\<open>remove\<close> called with a value that is not an object.\<close>

definition repo_refuse :: "jsvalue \<Rightarrow> state \<Rightarrow> state" where
  "repo_refuse v s = s\<lparr>db_calls := db_calls s @ [Refused v]\<rparr>"

definition repo_remove :: "Task \<Rightarrow> state \<Rightarrow> state" where
  "repo_remove t s =
     s\<lparr>rows := (rows s)(task_id t := None), db_calls := db_calls s @ [Remove (task_id t)]\<rparr>"

text \<open>
  \<^verbatim>\<open>tasksRepository.create(dto)\<close>: the entity with the properties of the DTO; the
  columns the DTO leaves out take their defaults and the key is the one the database
  generates, here the argument \<open>gid\<close>.
\<close>

definition repo_create :: "env \<Rightarrow> string \<Rightarrow> CreateTaskDto \<Rightarrow> Task" where
  "repo_create E gid dto =
     \<lparr>task_id = gid,
      title = new_title dto,
      description = new_description dto,
      status = (case new_status dto of None \<Rightarrow> default_status E | Some st \<Rightarrow> st),
      priority = (case new_priority dto of None \<Rightarrow> default_priority E | Some p \<Rightarrow> p),
      dueDate = map_option NewDate (new_dueDate dto),
      userId = new_userId dto\<rparr>"

text \<open>The queue injected into the service is the one registered as \<^verbatim>\<open>task-processing\<close>.\<close>

definition taskQueue :: string where
  "taskQueue = ''task-processing''"

definition queue_add :: "string \<Rightarrow> (string \<times> field) list \<Rightarrow> state \<Rightarrow> state" where
  "queue_add n d s =
     s\<lparr>jobs := jobs s @ [\<lparr>queue_name = taskQueue, job_name = n, job_data = d\<rparr>]\<rparr>"

definition publish_status :: "Task \<Rightarrow> state \<Rightarrow> state" where
  "publish_status t s =
     queue_add ''task-status-update''
       [(''taskId'', IdField (task_id t)), (''status'', StatusField (status t))] s"

section \<open>TasksService\<close>

definition create :: "env \<Rightarrow> string \<Rightarrow> CreateTaskDto \<Rightarrow> state \<Rightarrow> Task \<times> state" where
  "create E gid createTaskDto s =
     (let task = repo_create E gid createTaskDto;
          (savedTask, s1) = repo_save task s
      in (savedTask, publish_status savedTask s1))"

text \<open>
  The fetcher of \<^verbatim>\<open>findOne\<close>: counts the rows with the id, throws when there is none, and
  reads the row otherwise.
\<close>

definition findOne_fetcher :: "string \<Rightarrow> state \<Rightarrow> (error + jsvalue) \<times> state" where
  "findOne_fetcher i s =
     (case repo_count i s of
        (count, s1) \<Rightarrow>
          if count = 0 then (Inl (NotFoundException i), s1)
          else (case repo_findOne i s1 of (task, s2) \<Rightarrow> (Inr task, s2)))"

definition findOne :: "env \<Rightarrow> string \<Rightarrow> state \<Rightarrow> (error + jsvalue) \<times> state" where
  "findOne E i s = getOrSet E (''task:'' @ i) (findOne_fetcher i) 300 s"

text \<open>A property of the DTO is applied when it is truthy: present, and not the empty text.\<close>

definition truthy :: "string option \<Rightarrow> bool" where
  "truthy x = (case x of None \<Rightarrow> False | Some v \<Rightarrow> v \<noteq> [])"

definition apply_patch :: "UpdateTaskDto \<Rightarrow> Task \<Rightarrow> Task" where
  "apply_patch dto task =
     (let t1 = (if truthy (upd_title dto) then task\<lparr>title := the (upd_title dto)\<rparr> else task);
          t2 = (if truthy (upd_description dto)
                then t1\<lparr>description := upd_description dto\<rparr> else t1);
          t3 = (case upd_status dto of Some st \<Rightarrow> t2\<lparr>status := st\<rparr> | None \<Rightarrow> t2);
          t4 = (case upd_priority dto of Some p \<Rightarrow> t3\<lparr>priority := p\<rparr> | None \<Rightarrow> t3)
      in if truthy (upd_dueDate dto)
         then t4\<lparr>dueDate := Some (NewDate (the (upd_dueDate dto)))\<rparr> else t4)"

text \<open>
  \<^verbatim>\<open>update\<close> after its first await: \<open>update_write\<close> is the body from the value that
  \<^verbatim>\<open>findOne\<close> returned onwards. It patches the task, saves it, and adds a job when the
  status differs from the one read. There is no call of the cache in it.

  The value may not be a task object. On \<^verbatim>\<open>null\<close> the read of the status throws. On a
  string (text left in the cache) the read gives \<^verbatim>\<open>undefined\<close> and the first assignment
  that runs throws; when no property of the patch is applied (\<open>assigns\<close> is false), the
  string reaches \<^verbatim>\<open>save\<close>, which the repository rejects.
\<close>

definition assigns :: "UpdateTaskDto \<Rightarrow> bool" where
  "assigns dto =
     (truthy (upd_title dto) \<or> truthy (upd_description dto) \<or> upd_status dto \<noteq> None
      \<or> upd_priority dto \<noteq> None \<or> truthy (upd_dueDate dto))"

definition update_write :: "UpdateTaskDto \<Rightarrow> jsvalue \<Rightarrow> state \<Rightarrow> (error + Task) \<times> state" where
  "update_write updateTaskDto v s =
     (case v of
        JTask task \<Rightarrow>
          (let originalStatus = status task;
               (updatedTask, s1) = repo_save (apply_patch updateTaskDto task) s
           in (Inr updatedTask,
               if originalStatus \<noteq> status updatedTask then publish_status updatedTask s1 else s1))
      | JString x \<Rightarrow>
          if assigns updateTaskDto then (Inl TypeError, s)
          else (Inl MustBeEntityError, repo_refuse v s)
      | JNull \<Rightarrow> (Inl TypeError, s))"

definition update :: "env \<Rightarrow> string \<Rightarrow> UpdateTaskDto \<Rightarrow> state \<Rightarrow> (error + Task) \<times> state" where
  "update E i updateTaskDto s =
     (case findOne E i s of
        (Inl e, s1) \<Rightarrow> (Inl e, s1)
      | (Inr v, s1) \<Rightarrow> update_write updateTaskDto v s1)"

text \<open>
  \<^verbatim>\<open>remove\<close>, likewise: the lookup, then \<^verbatim>\<open>tasksRepository.remove\<close> of what it returned.
  No property of the value is read; a value that is not an object is rejected by the
  repository.
\<close>

definition remove_write :: "jsvalue \<Rightarrow> state \<Rightarrow> (error + unit) \<times> state" where
  "remove_write v s =
     (case v of
        JTask task \<Rightarrow> (Inr (), repo_remove task s)
      | _ \<Rightarrow> (Inl MustBeEntityError, repo_refuse v s))"

definition remove :: "env \<Rightarrow> string \<Rightarrow> state \<Rightarrow> (error + unit) \<times> state" where
  "remove E i s =
     (case findOne E i s of
        (Inl e, s1) \<Rightarrow> (Inl e, s1)
      | (Inr v, s1) \<Rightarrow> remove_write v s1)"

text \<open>
  \<^verbatim>\<open>updateStatus\<close> assigns its argument to the status without looking at the current one.
  The source takes any string; the model takes the strings that are statuses.
\<close>

definition updateStatus :: "env \<Rightarrow> string \<Rightarrow> TaskStatus \<Rightarrow> state \<Rightarrow> (error + Task) \<times> state" where
  "updateStatus E i st s =
     (case findOne E i s of
        (Inl e, s1) \<Rightarrow> (Inl e, s1)
      | (Inr v, s1) \<Rightarrow>
          (case v of
             JTask task \<Rightarrow> (case repo_save (task\<lparr>status := st\<rparr>) s1 of (t, s2) \<Rightarrow> (Inr t, s2))
           | _ \<Rightarrow> (Inl TypeError, s1)))"

section \<open>Schedules of concurrent callers\<close>

text \<open>
  The service runs on one event loop: a call runs until its next \<^verbatim>\<open>await\<close>, and other
  calls run in between. \<open>getOrSet_resume\<close> is \<^verbatim>\<open>getOrSet\<close> from the result of its awaited
  \<^verbatim>\<open>get\<close> onwards, so that \<^verbatim>\<open>getOrSet\<close> is \<^verbatim>\<open>get\<close> followed by \<open>getOrSet_resume\<close>.
  \<open>together\<close> is the schedule of \<open>n\<close> calls issued at once for the same key: each runs to
  its first \<^verbatim>\<open>await\<close>, the backend answers the \<open>n\<close> lookups, and then each call resumes.
\<close>

definition getOrSet_resume ::
  "env \<Rightarrow> string \<Rightarrow> (state \<Rightarrow> (error + jsvalue) \<times> state) \<Rightarrow> nat \<Rightarrow> error + jsvalue \<Rightarrow> state
     \<Rightarrow> (error + jsvalue) \<times> state" where
  "getOrSet_resume E key fetcher ttlSeconds r s =
     (case r of
        Inl e \<Rightarrow> (Inl e, s)
      | Inr cached \<Rightarrow>
          if cached \<noteq> JNull then (Inr cached, s)
          else getOrSet_populate E key fetcher ttlSeconds s)"

fun lookups :: "env \<Rightarrow> string \<Rightarrow> nat \<Rightarrow> state \<Rightarrow> (error + jsvalue) list \<times> state" where
  "lookups E key 0 s = ([], s)"
| "lookups E key (Suc n) s =
     (case cache_get E key s of
        (r, s1) \<Rightarrow> (case lookups E key n s1 of (rs, s2) \<Rightarrow> (r # rs, s2)))"

fun resumes ::
  "env \<Rightarrow> string \<Rightarrow> (state \<Rightarrow> (error + jsvalue) \<times> state) \<Rightarrow> nat \<Rightarrow> (error + jsvalue) list
     \<Rightarrow> state \<Rightarrow> (error + jsvalue) list \<times> state" where
  "resumes E key fetcher ttl [] s = ([], s)"
| "resumes E key fetcher ttl (r # rs) s =
     (case getOrSet_resume E key fetcher ttl r s of
        (v, s1) \<Rightarrow> (case resumes E key fetcher ttl rs s1 of (vs, s2) \<Rightarrow> (v # vs, s2)))"

definition together ::
  "env \<Rightarrow> string \<Rightarrow> (state \<Rightarrow> (error + jsvalue) \<times> state) \<Rightarrow> nat \<Rightarrow> nat \<Rightarrow> state
     \<Rightarrow> (error + jsvalue) list \<times> state" where
  "together E key fetcher ttl n s =
     (case lookups E key n s of (rs, s1) \<Rightarrow> resumes E key fetcher ttl rs s1)"

text \<open>\<open>findOne_together\<close>: \<open>n\<close> calls of \<^verbatim>\<open>findOne\<close> for one id, issued at once.\<close>

definition findOne_together :: "env \<Rightarrow> string \<Rightarrow> nat \<Rightarrow> state \<Rightarrow> (error + jsvalue) list \<times> state" where
  "findOne_together E i n s = together E (''task:'' @ i) (findOne_fetcher i) 300 n s"

text \<open>The number of row reads issued to the repository for an id.\<close>

definition fetches :: "string \<Rightarrow> state \<Rightarrow> nat" where
  "fetches i s = length (filter (\<lambda>c. c = FindOne i) (db_calls s))"

text \<open>
  \<^verbatim>\<open>update\<close> has three awaits: \<^verbatim>\<open>findOne\<close>, and the two steps of \<^verbatim>\<open>save\<close>. \<open>update_begin\<close>
  is the body from the result of the lookup up to the first step of \<^verbatim>\<open>save\<close>: it patches
  the task and reads the row. \<open>update_finish\<close> is the rest: the second step of \<^verbatim>\<open>save\<close>,
  and the job. What is carried from one to the other is the status read at the start,
  the patched task, and the row that \<^verbatim>\<open>save\<close> read.
\<close>

definition update_begin ::
  "UpdateTaskDto \<Rightarrow> error + jsvalue \<Rightarrow> state
     \<Rightarrow> (error + TaskStatus \<times> Task \<times> Task option) \<times> state" where
  "update_begin updateTaskDto r s =
     (case r of
        Inl e \<Rightarrow> (Inl e, s)
      | Inr v \<Rightarrow>
          (case v of
             JTask task \<Rightarrow>
               (let originalStatus = status task;
                    patched = apply_patch updateTaskDto task
                in (Inr (originalStatus, patched, save_load patched s), s))
           | JString x \<Rightarrow>
               if assigns updateTaskDto then (Inl TypeError, s)
               else (Inl MustBeEntityError, repo_refuse v s)
           | JNull \<Rightarrow> (Inl TypeError, s)))"

definition update_finish ::
  "error + TaskStatus \<times> Task \<times> Task option \<Rightarrow> state \<Rightarrow> (error + Task) \<times> state" where
  "update_finish p s =
     (case p of
        Inl e \<Rightarrow> (Inl e, s)
      | Inr (originalStatus, patched, loaded) \<Rightarrow>
          (let (updatedTask, s1) = save_write patched loaded s
           in (Inr updatedTask,
               if originalStatus \<noteq> status updatedTask then publish_status updatedTask s1 else s1)))"


section \<open>Predicates of the claims\<close>

text \<open>
  The shape of a job as the service builds it: on the queue \<^verbatim>\<open>task-processing\<close>, named
  \<^verbatim>\<open>task-status-update\<close>, with exactly two properties: \<^verbatim>\<open>taskId\<close>, holding an id (a
  string), then \<^verbatim>\<open>status\<close>, holding a status of the enum.
\<close>

fun payload_shape :: "(string \<times> field) list \<Rightarrow> bool" where
  "payload_shape [(k1, IdField i), (k2, StatusField st)] = (k1 = ''taskId'' \<and> k2 = ''status'')"
| "payload_shape d = False"

definition job_shape :: "job \<Rightarrow> bool" where
  "job_shape j =
     (queue_name j = ''task-processing'' \<and> job_name j = ''task-status-update''
      \<and> payload_shape (job_data j))"

text \<open>Whether a call issued a write to the repository.\<close>

fun is_write :: "db_call \<Rightarrow> bool" where
  "is_write (Save t) = True"
| "is_write (Remove i) = True"
| "is_write (Count i) = False"
| "is_write (FindOne i) = False"
| "is_write (Refused v) = False"

section \<open>Sample data\<close>

text \<open>
  A JSON text for a task, and an \<open>env\<close> whose \<^verbatim>\<open>JSON.parse\<close> reads back the texts of the
  tasks listed in \<open>known\<close> and the text \<^verbatim>\<open>null\<close>, and throws on any other text. It agrees
  with the runtime on the texts used below.
\<close>

definition quoted :: "string \<Rightarrow> string" where
  "quoted x = CHR 0x22 # x @ [CHR 0x22]"

fun status_text :: "TaskStatus \<Rightarrow> string" where
  "status_text PENDING = ''PENDING''"
| "status_text IN_PROGRESS = ''IN_PROGRESS''"
| "status_text COMPLETED = ''COMPLETED''"
| "status_text OVERDUE = ''OVERDUE''"

fun priority_text :: "TaskPriority \<Rightarrow> string" where
  "priority_text LOW = ''LOW''"
| "priority_text MEDIUM = ''MEDIUM''"
| "priority_text HIGH = ''HIGH''"

definition task_json :: "Task \<Rightarrow> string" where
  "task_json t =
     ''{'' @ quoted ''id'' @ '':'' @ quoted (task_id t)
     @ '','' @ quoted ''title'' @ '':'' @ quoted (title t)
     @ '','' @ quoted ''description'' @ '':''
     @ (case description t of None \<Rightarrow> ''null'' | Some d \<Rightarrow> quoted d)
     @ '','' @ quoted ''status'' @ '':'' @ quoted (status_text (status t))
     @ '','' @ quoted ''priority'' @ '':'' @ quoted (priority_text (priority t))
     @ '','' @ quoted ''dueDate'' @ '':''
     @ (case dueDate t of None \<Rightarrow> ''null'' | Some (NewDate d) \<Rightarrow> quoted d)
     @ '','' @ quoted ''userId'' @ '':'' @ quoted (userId t) @ ''}''"

fun sample_stringify :: "jsvalue \<Rightarrow> string" where
  "sample_stringify JNull = ''null''"
| "sample_stringify (JString x) = quoted x"
| "sample_stringify (JTask t) = task_json t"

definition sample_parse :: "Task list \<Rightarrow> string \<Rightarrow> jsvalue option" where
  "sample_parse known c =
     (if c = ''null'' then Some JNull
      else map_of (map (\<lambda>t. (task_json t, JTask t)) known) c)"

definition sample_env :: "Task list \<Rightarrow> env" where
  "sample_env known =
     \<lparr>json_stringify = sample_stringify, json_parse = sample_parse known,
      default_status = PENDING, default_priority = MEDIUM\<rparr>"

definition draft :: Task where
  "draft =
     \<lparr>task_id = ''t1'', title = ''Draft'', description = None, status = PENDING,
      priority = LOW, dueDate = None, userId = ''u1''\<rparr>"

definition done_task :: Task where
  "done_task = draft\<lparr>status := COMPLETED\<rparr>"

definition draft_dto :: CreateTaskDto where
  "draft_dto =
     \<lparr>new_title = ''Draft'', new_description = None, new_status = Some PENDING,
      new_priority = Some LOW, new_dueDate = None, new_userId = ''u1''\<rparr>"

definition no_patch :: UpdateTaskDto where
  "no_patch =
     \<lparr>upd_title = None, upd_description = None, upd_status = None, upd_priority = None,
      upd_dueDate = None\<rparr>"

definition retitle :: UpdateTaskDto where
  "retitle = no_patch\<lparr>upd_title := Some ''Final''\<rparr>"

definition raise_priority :: UpdateTaskDto where
  "raise_priority = no_patch\<lparr>upd_priority := Some HIGH\<rparr>"

definition reopen :: UpdateTaskDto where
  "reopen = no_patch\<lparr>upd_status := Some PENDING\<rparr>"

definition empty_state :: state where
  "empty_state =
     \<lparr>rows = Map.empty, db_calls = [], entries = Map.empty, available = True, jobs = [],
      logs = []\<rparr>"

text \<open>A store holding one task, with a cold cache.\<close>

definition one_task :: "Task \<Rightarrow> state" where
  "one_task t = empty_state\<lparr>rows := [task_id t \<mapsto> t]\<rparr>"

text \<open>
  The store after a retitling of \<open>draft\<close>, with the cache entry of before it; and a patch
  with a priority and an empty title.
\<close>

definition stale_cache :: state where
  "stale_cache =
     (one_task (draft\<lparr>title := ''Final''\<rparr>))
       \<lparr>entries := [''app:task:t1'' \<mapsto> (task_json draft, 300)]\<rparr>"

definition blank_title :: UpdateTaskDto where
  "blank_title = no_patch\<lparr>upd_title := Some [], upd_priority := Some HIGH\<rparr>"

text \<open>The empty state with a cache backend that rejects every call.\<close>

definition offline :: state where
  "offline = empty_state\<lparr>available := False\<rparr>"

section \<open>Saving with nothing in between\<close>

text \<open>
  When no other write comes between its two steps, \<^verbatim>\<open>save\<close> leaves the entity as the row:
  the columns it does not update are those in which the row already agrees.
\<close>

lemma write_changed_same: "write_changed t l l = t"
  by (simp add: write_changed_def)

lemma repo_save_eq:
  "repo_save t s = (t, s\<lparr>rows := (rows s)(task_id t \<mapsto> t), db_calls := db_calls s @ [Save t]\<rparr>)"
  by (simp add: repo_save_def save_load_def save_write_def write_changed_same split: option.splits)

section \<open>The read-through lookup\<close>

text \<open>
  The three ways \<^verbatim>\<open>findOne\<close> ends on a backend that answers: a miss on a stored task
  reads it and stores its text for 300 seconds; a miss on an id without a row throws and
  stores nothing; a hit returns what the cached text parses to, without reading the
  repository.
\<close>

lemma findOne_cold_found:
  assumes "available s" and "entries s (buildKey (''task:'' @ i)) = None" and "rows s i = Some t"
  shows "findOne E i s =
     (Inr (JTask t),
      s\<lparr>db_calls := db_calls s @ [Count i, FindOne i],
        entries := (entries s)(buildKey (''task:'' @ i) \<mapsto> (json_stringify E (JTask t), 300)),
        logs := logs s @ [(Debug, CacheMiss (buildKey (''task:'' @ i))),
                          (Debug, CachePopulate (''task:'' @ i)),
                          (Debug, CacheSet (buildKey (''task:'' @ i)) 300)]\<rparr>)"
  using assms
  by (simp add: findOne_def getOrSet_def cache_get_def cm_get_def logger_def
      getOrSet_populate_def findOne_fetcher_def repo_count_def repo_findOne_def
      cache_set_def cm_set_def Let_def)

lemma findOne_cold_missing:
  assumes "available s" and "entries s (buildKey (''task:'' @ i)) = None" and "rows s i = None"
  shows "findOne E i s =
     (Inl (NotFoundException i),
      s\<lparr>db_calls := db_calls s @ [Count i],
        logs := logs s @ [(Debug, CacheMiss (buildKey (''task:'' @ i))),
                          (Debug, CachePopulate (''task:'' @ i))]\<rparr>)"
  using assms
  by (simp add: findOne_def getOrSet_def cache_get_def cm_get_def logger_def
      getOrSet_populate_def findOne_fetcher_def repo_count_def Let_def)

lemma findOne_hit:
  assumes "available s" and "entries s (buildKey (''task:'' @ i)) = Some (c, ttl)" and "c \<noteq> []"
    and "json_parse E c = Some v" and "v \<noteq> JNull"
  shows "findOne E i s = (Inr v, logger Debug (CacheHit (buildKey (''task:'' @ i))) s)"
  using assms
  by (simp add: findOne_def getOrSet_def cache_get_def cm_get_def Let_def)

text \<open>
  When \<^verbatim>\<open>findOne\<close> returned a task object, the cache holds a text for the key that parses
  to that object: the text it found, or the one it has just stored.
\<close>

lemma findOne_task_cached:
  assumes "findOne E i s = (Inr (JTask t), s1)"
    and "json_parse E (json_stringify E (JTask t)) = Some (JTask t)"
    and "json_stringify E (JTask t) \<noteq> []"
  shows "available s1 \<and> (\<exists>c ttl. entries s1 (buildKey (''task:'' @ i)) = Some (c, ttl) \<and> c \<noteq> []
            \<and> json_parse E c = Some (JTask t))"
  using assms
  by (auto simp: findOne_def getOrSet_def cache_get_def cm_get_def logger_def
      getOrSet_populate_def findOne_fetcher_def repo_count_def repo_findOne_def
      cache_set_def cm_set_def Let_def split: if_splits option.splits sum.splits prod.splits)

section \<open>The write half of update\<close>

lemma update_write_task:
  "update_write dto (JTask t) s =
     (Inr (apply_patch dto t),
      (if status t \<noteq> status (apply_patch dto t) then publish_status (apply_patch dto t) else id)
        (s\<lparr>rows := (rows s)(task_id (apply_patch dto t) \<mapsto> apply_patch dto t),
           db_calls := db_calls s @ [Save (apply_patch dto t)]\<rparr>))"
  by (simp add: update_write_def repo_save_eq Let_def)

lemma apply_patch_id [simp]: "task_id (apply_patch dto t) = task_id t"
  by (simp add: apply_patch_def Let_def split: option.splits)

lemma apply_patch_userId [simp]: "userId (apply_patch dto t) = userId t"
  by (simp add: apply_patch_def Let_def split: option.splits)

lemma publish_status_frame [simp]:
  "rows (publish_status t s) = rows s" "entries (publish_status t s) = entries s"
  "available (publish_status t s) = available s" "db_calls (publish_status t s) = db_calls s"
  "logs (publish_status t s) = logs s"
  by (simp_all add: publish_status_def queue_add_def)

section \<open>Schedules and samples\<close>

text \<open>The sequential \<^verbatim>\<open>update\<close> is its three steps, one after the other.\<close>

lemma update_write_is_begin_then_finish:
  "update_write dto v s = (case update_begin dto (Inr v) s of (p, s1) \<Rightarrow> update_finish p s1)"
  by (simp add: update_write_def update_begin_def update_finish_def repo_save_def Let_def
      split: jsvalue.splits)

lemma update_is_three_steps:
  "update E i dto s =
     (case findOne E i s of
        (r, s1) \<Rightarrow> (case update_begin dto r s1 of (p, s2) \<Rightarrow> update_finish p s2))"
  by (simp add: update_def update_write_is_begin_then_finish update_begin_def update_finish_def
      split: prod.splits sum.splits)


lemma sample_json:
  "json_parse (sample_env [draft]) (json_stringify (sample_env [draft]) (JTask draft)) = Some (JTask draft)"
  "json_stringify (sample_env [draft]) (JTask draft) \<noteq> []"
  by (simp_all add: sample_env_def sample_parse_def task_json_def)

lemma done_lookup:
  "findOne (sample_env [done_task]) ''t1'' (one_task done_task)
     = (Inr (JTask done_task), snd (findOne (sample_env [done_task]) ''t1'' (one_task done_task)))"
  by (simp add: findOne_cold_found one_task_def empty_state_def draft_def done_task_def buildKey_def)

lemmas eval_defs = findOne_def getOrSet_def cache_get_def cm_get_def logger_def
      getOrSet_populate_def findOne_fetcher_def repo_count_def repo_findOne_def
      cache_set_def cm_set_def Let_def update_def update_write_def repo_save_eq apply_patch_def
      truthy_def one_task_def empty_state_def sample_env_def publish_status_def queue_add_def
      sample_parse_def buildKey_def namespace_def task_json_def quoted_def remove_def remove_write_def
      repo_remove_def create_def repo_create_def updateStatus_def repo_refuse_def assigns_def
      update_begin_def update_finish_def save_load_def save_write_def write_changed_def

section \<open>Frames\<close>

text \<open>What the cache calls and the lookup leave alone.\<close>

lemma cache_set_frame [simp]:
  "rows (cache_set E k v n s) = rows s" "jobs (cache_set E k v n s) = jobs s"
  "db_calls (cache_set E k v n s) = db_calls s" "available (cache_set E k v n s) = available s"
  by (simp_all add: cache_set_def cm_set_def logger_def Let_def)

lemma findOne_frame:
  "jobs (snd (findOne E i s)) = jobs s" "rows (snd (findOne E i s)) = rows s"
  "available (snd (findOne E i s)) = available s"
  by (simp_all add: findOne_def getOrSet_def cache_get_def cm_get_def logger_def
      getOrSet_populate_def findOne_fetcher_def repo_count_def repo_findOne_def
      Let_def split: option.splits)

lemma publish_status_jobs:
  "list_all job_shape (jobs (publish_status t s)) = list_all job_shape (jobs s)"
  by (simp add: publish_status_def queue_add_def taskQueue_def job_shape_def)

text \<open>The shape is about the kinds of the values too: a payload with them swapped has not got it.\<close>

lemma job_shape_swapped:
  "job_shape \<lparr>queue_name = ''task-processing'', job_name = ''task-status-update'',
      job_data = [(''taskId'', StatusField st), (''status'', IdField x)]\<rparr> = False"
  by (simp add: job_shape_def)

section \<open>Calls issued together\<close>

text \<open>
  The sequential \<^verbatim>\<open>getOrSet\<close> is its lookup followed by the rest of its body. On a cold
  cache every lookup of a batch misses, and every resumed call then runs the fetcher.
\<close>

lemma getOrSet_is_lookup_then_resume:
  "getOrSet E key fetcher ttl s =
     (case cache_get E key s of (r, s1) \<Rightarrow> getOrSet_resume E key fetcher ttl r s1)"
  by (simp add: getOrSet_def getOrSet_resume_def split: prod.splits sum.splits)

lemma cache_get_miss:
  assumes "available s" and "entries s (buildKey key) = None"
  shows "cache_get E key s = (Inr JNull, logger Debug (CacheMiss (buildKey key)) s)"
  using assms by (simp add: cache_get_def cm_get_def Let_def)

lemma lookups_cold:
  assumes "available s" and "entries s (buildKey key) = None"
  shows "fst (lookups E key n s) = replicate n (Inr JNull)
     \<and> available (snd (lookups E key n s))
     \<and> rows (snd (lookups E key n s)) = rows s
     \<and> db_calls (snd (lookups E key n s)) = db_calls s"
  using assms
proof (induction n arbitrary: s)
  case 0
  then show ?case by simp
next
  case (Suc n)
  let ?s1 = "logger Debug (CacheMiss (buildKey key)) s"
  have a1: "available ?s1" and e1: "entries ?s1 (buildKey key) = None"
    using Suc.prems by (simp_all add: logger_def)
  obtain rs s2 where l: "lookups E key n ?s1 = (rs, s2)"
    by (cases "lookups E key n ?s1")
  from Suc.IH [OF a1 e1] l have "rs = replicate n (Inr JNull)" and "available s2"
    and "rows s2 = rows s" and "db_calls s2 = db_calls s"
    by (simp_all add: logger_def)
  then show ?case
    by (simp add: cache_get_miss [OF Suc.prems] l)
qed

lemma populate_found:
  assumes "rows s i = Some t"
  shows "fst (getOrSet_populate E key (findOne_fetcher i) ttl s) = Inr (JTask t)
     \<and> rows (snd (getOrSet_populate E key (findOne_fetcher i) ttl s)) = rows s
     \<and> db_calls (snd (getOrSet_populate E key (findOne_fetcher i) ttl s))
         = db_calls s @ [Count i, FindOne i]"
  using assms
  by (simp add: getOrSet_populate_def findOne_fetcher_def repo_count_def repo_findOne_def
      logger_def)

lemma resumes_all_fetch:
  assumes "rows s i = Some t"
  shows "fst (resumes E key (findOne_fetcher i) ttl (replicate n (Inr JNull)) s)
           = replicate n (Inr (JTask t))
     \<and> fetches i (snd (resumes E key (findOne_fetcher i) ttl (replicate n (Inr JNull)) s))
           = fetches i s + n"
  using assms
proof (induction n arbitrary: s)
  case 0
  then show ?case by simp
next
  case (Suc n)
  let ?p = "getOrSet_populate E key (findOne_fetcher i) ttl s"
  note p = populate_found [OF Suc.prems, of E key ttl]
  from p have r1: "rows (snd ?p) i = Some t"
    using Suc.prems by simp
  from p have f1: "fetches i (snd ?p) = Suc (fetches i s)"
    by (simp add: fetches_def)
  obtain v s1 where q: "?p = (v, s1)"
    by (cases ?p)
  obtain vs s2 where rs: "resumes E key (findOne_fetcher i) ttl (replicate n (Inr JNull)) s1 = (vs, s2)"
    by (cases "resumes E key (findOne_fetcher i) ttl (replicate n (Inr JNull)) s1")
  from p q have v: "v = Inr (JTask t)"
    by simp
  from Suc.IH [OF r1] q rs f1 have "vs = replicate n (Inr (JTask t))"
    and "fetches i s2 = Suc (fetches i s) + n"
    by simp_all
  with v show ?case
    by (simp add: getOrSet_resume_def q rs)
qed

section \<open>Two updates issued together\<close>









section \<open>A backend that rejects calls\<close>

text \<open>
  \<^verbatim>\<open>delete\<close> and \<^verbatim>\<open>get\<close> have no guard around the backend call: its rejection is thrown to
  the caller.
\<close>

lemma cache_delete_unavailable:
  "\<not> available s \<Longrightarrow> cache_delete key s = (Inl CacheBackendError, s)"
  by (simp add: cache_delete_def cm_del_def Let_def)

lemma cache_get_unavailable:
  "\<not> available s \<Longrightarrow> cache_get E key s = (Inl CacheBackendError, s)"
  by (simp add: cache_get_def cm_get_def Let_def)

section \<open>Claims\<close>

subsection \<open>C1: a read after an update\<close>

text \<open>
  C1, as amended. Let \<open>t\<close> be the task that the initial \<^verbatim>\<open>findOne\<close> of \<^verbatim>\<open>update\<close> returned.
  The update succeeds with \<open>t\<close> patched and the store holds the patched task, but
  \<^verbatim>\<open>update\<close> makes no call of the cache: the entries are those the lookup left, the entry
  of the id is present, and the next \<^verbatim>\<open>findOne\<close> returns the copy \<open>t\<close> from before the
  update, not the patched values.
\<close>

theorem update_keeps_cache_entry:
  assumes "findOne E i s = (Inr (JTask t), s1)"
    and "json_parse E (json_stringify E (JTask t)) = Some (JTask t)"
    and "json_stringify E (JTask t) \<noteq> []"
  shows "fst (update E i dto s) = Inr (apply_patch dto t)
     \<and> rows (snd (update E i dto s)) (task_id t) = Some (apply_patch dto t)
     \<and> entries (snd (update E i dto s)) = entries s1
     \<and> entries s1 (buildKey (''task:'' @ i)) \<noteq> None
     \<and> fst (findOne E i (snd (update E i dto s))) = Inr (JTask t)"
proof -
  from findOne_task_cached [OF assms] obtain c ttl where
    av: "available s1" and en: "entries s1 (buildKey (''task:'' @ i)) = Some (c, ttl)"
    and c: "c \<noteq> []" and p: "json_parse E c = Some (JTask t)"
    by blast
  have u: "update E i dto s = update_write dto (JTask t) s1"
    by (simp add: update_def assms(1))
  let ?s' = "snd (update E i dto s)"
  have e': "entries ?s' = entries s1" and a': "available ?s'"
    by (simp_all add: u update_write_task av)
  have en': "entries ?s' (buildKey (''task:'' @ i)) = Some (c, ttl)"
    using e' en by simp
  have f: "fst (findOne E i ?s') = Inr (JTask t)"
    using findOne_hit [OF a' en' c p] by simp
  have r: "fst (update E i dto s) = Inr (apply_patch dto t)"
    and w: "rows ?s' (task_id t) = Some (apply_patch dto t)"
    by (simp_all add: u update_write_task)
  from en have "entries s1 (buildKey (''task:'' @ i)) \<noteq> None"
    by blast
  with r w e' f show ?thesis
    by blast
qed

theorem update_keeps_cache_entry_witness:
  "findOne (sample_env [draft]) ''t1'' (one_task draft)
     = (Inr (JTask draft), snd (findOne (sample_env [draft]) ''t1'' (one_task draft)))
   \<and> fst (update (sample_env [draft]) ''t1'' retitle (one_task draft)) = Inr (apply_patch retitle draft)
   \<and> fst (findOne (sample_env [draft]) ''t1'' (snd (update (sample_env [draft]) ''t1'' retitle (one_task draft))))
       = Inr (JTask draft)"
proof -
  have 1: "findOne (sample_env [draft]) ''t1'' (one_task draft)
     = (Inr (JTask draft), snd (findOne (sample_env [draft]) ''t1'' (one_task draft)))"
    by (simp add: findOne_cold_found one_task_def empty_state_def draft_def buildKey_def)
  have 2: "json_parse (sample_env [draft]) (json_stringify (sample_env [draft]) (JTask draft)) = Some (JTask draft)"
    by (simp add: sample_env_def sample_parse_def task_json_def)
  have 3: "json_stringify (sample_env [draft]) (JTask draft) \<noteq> []"
    by (simp add: sample_env_def task_json_def)
  from update_keeps_cache_entry [OF 1 2 3, of retitle] 1 show ?thesis by simp
qed

text \<open>
  The claim as stated fails: after retitling the stored task, the entry written by the
  lookup of the update is still in the cache and the next \<^verbatim>\<open>findOne\<close> returns the old
  title.
\<close>

theorem update_then_get_stale_counterexample:
  "rows (one_task draft) ''t1'' = Some draft
   \<and> fst (update (sample_env [draft]) ''t1'' retitle (one_task draft)) = Inr (draft\<lparr>title := ''Final''\<rparr>)
   \<and> entries (snd (update (sample_env [draft]) ''t1'' retitle (one_task draft))) ''app:task:t1''
       = Some (task_json draft, 300)
   \<and> fst (findOne (sample_env [draft]) ''t1'' (snd (update (sample_env [draft]) ''t1'' retitle (one_task draft))))
       = Inr (JTask draft)
   \<and> title draft = ''Draft''"
  by (simp add: findOne_def getOrSet_def cache_get_def cm_get_def logger_def
      getOrSet_populate_def findOne_fetcher_def repo_count_def repo_findOne_def
      cache_set_def cm_set_def Let_def update_def update_write_def repo_save_eq apply_patch_def
      truthy_def retitle_def no_patch_def one_task_def empty_state_def sample_env_def
      sample_parse_def buildKey_def namespace_def draft_def task_json_def quoted_def)

subsection \<open>C2: concurrent writers\<close>




subsection \<open>C3: status transitions\<close>

text \<open>
  C3, as amended. No status transition is rejected: whenever the initial lookup returns
  a task, \<^verbatim>\<open>update\<close> with a status in the patch and \<^verbatim>\<open>updateStatus\<close> succeed and store the
  task with the supplied status, whatever its status was and whatever its due date is.
\<close>

theorem every_status_transition_accepted:
  assumes "findOne E i s = (Inr (JTask t), s1)"
  shows "fst (update E i (dto\<lparr>upd_status := Some st\<rparr>) s) = Inr (apply_patch (dto\<lparr>upd_status := Some st\<rparr>) t)
     \<and> status (apply_patch (dto\<lparr>upd_status := Some st\<rparr>) t) = st
     \<and> rows (snd (update E i (dto\<lparr>upd_status := Some st\<rparr>) s)) (task_id t)
         = Some (apply_patch (dto\<lparr>upd_status := Some st\<rparr>) t)
     \<and> fst (updateStatus E i st s) = Inr (t\<lparr>status := st\<rparr>)
     \<and> rows (snd (updateStatus E i st s)) (task_id t) = Some (t\<lparr>status := st\<rparr>)"
proof -
  have u: "update E i (dto\<lparr>upd_status := Some st\<rparr>) s = update_write (dto\<lparr>upd_status := Some st\<rparr>) (JTask t) s1"
    by (simp add: update_def assms)
  have st: "status (apply_patch (dto\<lparr>upd_status := Some st\<rparr>) t) = st"
    by (simp add: apply_patch_def Let_def split: option.splits)
  have us: "updateStatus E i st s = (Inr (t\<lparr>status := st\<rparr>), snd (repo_save (t\<lparr>status := st\<rparr>) s1))"
    by (simp add: updateStatus_def assms repo_save_eq)
  show ?thesis
    by (simp add: u update_write_task st us repo_save_eq)
qed

theorem every_status_transition_accepted_witness:
  "findOne (sample_env [done_task]) ''t1'' (one_task done_task)
     = (Inr (JTask done_task), snd (findOne (sample_env [done_task]) ''t1'' (one_task done_task)))
   \<and> fst (update (sample_env [done_task]) ''t1'' (no_patch\<lparr>upd_status := Some PENDING\<rparr>) (one_task done_task))
       = Inr (apply_patch (no_patch\<lparr>upd_status := Some PENDING\<rparr>) done_task)
   \<and> fst (updateStatus (sample_env [done_task]) ''t1'' PENDING (one_task done_task))
       = Inr (done_task\<lparr>status := PENDING\<rparr>)"
  using every_status_transition_accepted [OF done_lookup, where dto = no_patch and st = PENDING] done_lookup
  by simp

text \<open>
  The claim as stated fails: a completed task is set back to pending by \<^verbatim>\<open>update\<close>.
\<close>

theorem completed_to_pending_counterexample:
  "map_option status (rows (one_task done_task) ''t1'') = Some COMPLETED
   \<and> fst (update (sample_env [done_task]) ''t1'' reopen (one_task done_task))
       = Inr (done_task\<lparr>status := PENDING\<rparr>)
   \<and> map_option status (rows (snd (update (sample_env [done_task]) ''t1'' reopen (one_task done_task))) ''t1'')
       = Some PENDING"
  by (simp add: eval_defs draft_def done_task_def reopen_def no_patch_def)

subsection \<open>C4: absence is not cached\<close>

text \<open>
  C4, as amended. For an id with no row in the store and no cache entry, on a cache
  backend that answers, \<^verbatim>\<open>findOne\<close> throws \<^verbatim>\<open>NotFoundException\<close> and stores nothing in the
  cache; when a task is then created under that id, the next \<^verbatim>\<open>findOne\<close> returns the
  created task.
\<close>

theorem absence_not_cached:
  assumes "available s" and "rows s x = None" and "entries s (buildKey (''task:'' @ x)) = None"
  shows "fst (findOne E x s) = Inl (NotFoundException x)
     \<and> entries (snd (findOne E x s)) = entries s
     \<and> fst (create E x dto (snd (findOne E x s))) = repo_create E x dto
     \<and> fst (findOne E x (snd (create E x dto (snd (findOne E x s))))) = Inr (JTask (repo_create E x dto))"
proof -
  note miss = findOne_cold_missing [OF assms(1) assms(3) assms(2), of E]
  let ?s1 = "snd (findOne E x s)"
  let ?s2 = "snd (create E x dto ?s1)"
  have c: "fst (create E x dto ?s1) = repo_create E x dto"
    by (simp add: create_def repo_save_eq Let_def)
  have a2: "available ?s2" and e2: "entries ?s2 (buildKey (''task:'' @ x)) = None"
    and r2: "rows ?s2 x = Some (repo_create E x dto)"
    using assms by (simp_all add: miss create_def repo_save_eq Let_def repo_create_def)
  have "fst (findOne E x ?s2) = Inr (JTask (repo_create E x dto))"
    by (simp add: findOne_cold_found [OF a2 e2 r2])
  with c show ?thesis
    by (simp add: miss)
qed

theorem absence_not_cached_witness:
  "available empty_state \<and> rows empty_state ''t1'' = None
   \<and> entries empty_state (buildKey (''task:'' @ ''t1'')) = None
   \<and> fst (findOne (sample_env []) ''t1'' empty_state) = Inl (NotFoundException ''t1'')
   \<and> fst (findOne (sample_env []) ''t1''
          (snd (create (sample_env []) ''t1'' draft_dto (snd (findOne (sample_env []) ''t1'' empty_state)))))
       = Inr (JTask draft)"
proof -
  have "repo_create (sample_env []) ''t1'' draft_dto = draft"
    by (simp add: repo_create_def draft_dto_def draft_def sample_env_def)
  with absence_not_cached [of empty_state "''t1''" "sample_env []" draft_dto]
  show ?thesis
    by (simp add: empty_state_def)
qed

text \<open>
  The claim as stated fails for an id whose row is gone and whose cache entry is not:
  \<^verbatim>\<open>remove\<close> leaves the entry that its own lookup stored, and \<^verbatim>\<open>findOne\<close> then returns the
  removed task.
\<close>

theorem removed_task_still_found_counterexample:
  "rows (snd (remove (sample_env [draft]) ''t1'' (snd (create (sample_env [draft]) ''t1'' draft_dto empty_state)))) ''t1''
     = None
   \<and> fst (findOne (sample_env [draft]) ''t1''
        (snd (remove (sample_env [draft]) ''t1'' (snd (create (sample_env [draft]) ''t1'' draft_dto empty_state)))))
     = Inr (JTask draft)"
  by (simp add: eval_defs draft_def draft_dto_def)

subsection \<open>C5: calls for one key issued together\<close>

text \<open>
  C5, as amended. \<^verbatim>\<open>getOrSet\<close> keeps no record of a populate in flight. When \<open>n\<close> calls of
  \<^verbatim>\<open>findOne\<close> for a stored id are issued together on a cold cache, every one of them
  misses, runs the fetcher and returns the stored task: the repository reads the row
  \<open>n\<close> times. One call alone reads it once, and a call that starts after an earlier one
  has finished is served from the cache without a read.
\<close>

theorem calls_together_all_fetch:
  assumes "available s" and "entries s (buildKey (''task:'' @ i)) = None" and "rows s i = Some t"
  shows "fst (findOne_together E i n s) = replicate n (Inr (JTask t))
     \<and> fetches i (snd (findOne_together E i n s)) = fetches i s + n
     \<and> fetches i (snd (findOne E i s)) = fetches i s + 1
     \<and> (json_parse E (json_stringify E (JTask t)) = Some (JTask t) \<and> json_stringify E (JTask t) \<noteq> []
         \<longrightarrow> fst (findOne E i (snd (findOne E i s))) = Inr (JTask t)
           \<and> fetches i (snd (findOne E i (snd (findOne E i s)))) = fetches i s + 1)"
proof -
  define key where "key = ''task:'' @ i"
  have cold: "entries s (buildKey key) = None"
    using assms(2) by (simp add: key_def)
  obtain rs s1 where l: "lookups E key n s = (rs, s1)"
    by (cases "lookups E key n s")
  from lookups_cold [OF assms(1) cold, of E n] l
  have rs: "rs = replicate n (Inr JNull)" and r: "rows s1 i = Some t"
    and f0: "fetches i s1 = fetches i s"
    using assms(3) by (simp_all add: fetches_def)
  have tg: "findOne_together E i n s
      = resumes E key (findOne_fetcher i) 300 (replicate n (Inr JNull)) s1"
  proof -
    have "findOne_together E i n s = together E key (findOne_fetcher i) 300 n s"
      unfolding findOne_together_def key_def by (rule refl)
    then show ?thesis
      by (simp add: together_def l rs)
  qed
  from resumes_all_fetch [OF r, of E key 300 n]
  have a: "fst (findOne_together E i n s) = replicate n (Inr (JTask t))"
    and b: "fetches i (snd (findOne_together E i n s)) = fetches i s + n"
    by (simp_all add: tg f0)
  note first = findOne_cold_found [OF assms, of E]
  have c: "fetches i (snd (findOne E i s)) = fetches i s + 1"
    by (simp add: first fetches_def)
  have d: "fst (findOne E i (snd (findOne E i s))) = Inr (JTask t)
       \<and> fetches i (snd (findOne E i (snd (findOne E i s)))) = fetches i s + 1"
    if rt: "json_parse E (json_stringify E (JTask t)) = Some (JTask t)"
      and ne: "json_stringify E (JTask t) \<noteq> []"
  proof -
    let ?s1 = "snd (findOne E i s)"
    have a1: "available ?s1"
      and e1: "entries ?s1 (buildKey (''task:'' @ i)) = Some (json_stringify E (JTask t), 300)"
      using assms(1) by (simp_all add: first)
    have "findOne E i ?s1 = (Inr (JTask t), logger Debug (CacheHit (buildKey (''task:'' @ i))) ?s1)"
      using findOne_hit [OF a1 e1 ne rt] by simp
    then show ?thesis
      using c by (simp add: fetches_def logger_def)
  qed
  from a b c d show ?thesis
    by blast
qed

theorem calls_together_all_fetch_witness:
  "available (one_task draft) \<and> entries (one_task draft) (buildKey (''task:'' @ ''t1'')) = None
   \<and> rows (one_task draft) ''t1'' = Some draft
   \<and> fst (findOne_together (sample_env [draft]) ''t1'' 50 (one_task draft)) = replicate 50 (Inr (JTask draft))
   \<and> fetches ''t1'' (snd (findOne_together (sample_env [draft]) ''t1'' 50 (one_task draft))) = 50
   \<and> fetches ''t1'' (snd (findOne (sample_env [draft]) ''t1'' (snd (findOne (sample_env [draft]) ''t1'' (one_task draft))))) = 1"
proof -
  have s: "available (one_task draft)" "entries (one_task draft) (buildKey (''task:'' @ ''t1'')) = None"
    "rows (one_task draft) ''t1'' = Some draft" "fetches ''t1'' (one_task draft) = 0"
    by (simp_all add: one_task_def empty_state_def draft_def fetches_def)
  from calls_together_all_fetch [OF s(1,2,3), of "sample_env [draft]" 50] sample_json s
  show ?thesis
    by simp
qed

text \<open>
  The claim as stated fails: two calls issued together on a cold cache read the row
  twice.
\<close>

theorem two_calls_two_fetches_counterexample:
  "fetches ''t1'' (one_task draft) = 0
   \<and> fst (findOne_together (sample_env [draft]) ''t1'' 2 (one_task draft))
       = [Inr (JTask draft), Inr (JTask draft)]
   \<and> fetches ''t1'' (snd (findOne_together (sample_env [draft]) ''t1'' 2 (one_task draft))) = 2"
  by (simp add: findOne_together_def together_def getOrSet_resume_def fetches_def
      numeral_2_eq_2 eval_defs draft_def)

subsection \<open>C6: the notification of create\<close>

text \<open>
  C6, as amended. \<^verbatim>\<open>create\<close> adds exactly one \<^verbatim>\<open>task-status-update\<close> job for the saved
  task, with its id and its status, whatever that status is.
\<close>

theorem create_always_publishes:
  "jobs (snd (create E gid dto s)) =
     jobs s @ [\<lparr>queue_name = ''task-processing'', job_name = ''task-status-update'',
                job_data = [(''taskId'', IdField gid),
                            (''status'', StatusField (status (fst (create E gid dto s))))]\<rparr>]"
  by (simp add: create_def repo_save_eq Let_def publish_status_def queue_add_def taskQueue_def
      repo_create_def)

text \<open>
  The claim as stated fails: a task created with the status \<open>PENDING\<close> is published.
\<close>

theorem create_pending_publishes_counterexample:
  "status (fst (create (sample_env []) ''t1'' draft_dto empty_state)) = PENDING
   \<and> jobs empty_state = []
   \<and> jobs (snd (create (sample_env []) ''t1'' draft_dto empty_state)) =
       [\<lparr>queue_name = ''task-processing'', job_name = ''task-status-update'',
         job_data = [(''taskId'', IdField ''t1''), (''status'', StatusField PENDING)]\<rparr>]"
  by (simp add: eval_defs taskQueue_def draft_dto_def)

subsection \<open>C7: the shape of a published job\<close>

text \<open>
  C7, as amended. Every job the service adds is on the queue \<^verbatim>\<open>task-processing\<close>, is
  named \<^verbatim>\<open>task-status-update\<close> and carries exactly the properties \<^verbatim>\<open>taskId\<close>, a string,
  and \<^verbatim>\<open>status\<close>, a status of the enum: if all jobs of the queue have this shape before an
  operation of the service, all have it after.
\<close>

theorem published_jobs_have_shape:
  assumes "list_all job_shape (jobs s)"
  shows "list_all job_shape (jobs (snd (create E gid cdto s)))
     \<and> list_all job_shape (jobs (snd (update E i udto s)))
     \<and> list_all job_shape (jobs (snd (updateStatus E i st s)))
     \<and> list_all job_shape (jobs (snd (remove E i s)))
     \<and> list_all job_shape (jobs (snd (findOne E i s)))"
proof -
  have f: "list_all job_shape (jobs (snd (findOne E i s)))"
    using assms by (simp add: findOne_frame)
  have c: "list_all job_shape (jobs (snd (create E gid cdto s)))"
    using assms by (simp add: create_def repo_save_eq Let_def publish_status_jobs)
  have u: "list_all job_shape (jobs (snd (update E i udto s)))"
    using f
    by (cases "findOne E i s")
      (auto simp: update_def update_write_def repo_save_eq repo_refuse_def Let_def
        publish_status_jobs split: sum.splits jsvalue.splits)
  have us: "list_all job_shape (jobs (snd (updateStatus E i st s)))"
    using f
    by (cases "findOne E i s")
      (auto simp: updateStatus_def repo_save_eq split: sum.splits jsvalue.splits)
  have r: "list_all job_shape (jobs (snd (remove E i s)))"
    using f
    by (cases "findOne E i s")
      (auto simp: remove_def remove_write_def repo_remove_def repo_refuse_def
        split: sum.splits jsvalue.splits)
  from c u us r f show ?thesis
    by blast
qed

theorem published_jobs_have_shape_witness:
  "list_all job_shape (jobs empty_state)
   \<and> list_all job_shape (jobs (snd (create (sample_env []) ''t1'' draft_dto empty_state)))
   \<and> jobs (snd (create (sample_env []) ''t1'' draft_dto empty_state)) \<noteq> []"
  using published_jobs_have_shape [of empty_state "sample_env []" "''t1''" draft_dto]
  by (simp add: empty_state_def create_def repo_save_eq Let_def publish_status_def queue_add_def)

text \<open>
  The claim as stated fails: the job published by \<^verbatim>\<open>create\<close> has no property
  \<^verbatim>\<open>occurredAt\<close>.
\<close>

theorem payload_without_occurredAt_counterexample:
  "map fst (job_data (last (jobs (snd (create (sample_env []) ''t1'' draft_dto empty_state)))))
     = [''taskId'', ''status'']
   \<and> map_of (job_data (last (jobs (snd (create (sample_env []) ''t1'' draft_dto empty_state)))))
       ''occurredAt'' = None"
  by (simp add: eval_defs taskQueue_def draft_dto_def)

subsection \<open>C8: failures of the cache\<close>

text \<open>
  C8, as amended. A \<^verbatim>\<open>set\<close> that the backend rejects is caught: \<^verbatim>\<open>set\<close> logs an error and
  returns with the cache unchanged, and a \<^verbatim>\<open>getOrSet\<close> whose store fails still returns the
  fetched value. A read whose cached text \<^verbatim>\<open>JSON.parse\<close> rejects is a hit that returns the
  text itself as a string, from \<^verbatim>\<open>get\<close> and from \<^verbatim>\<open>getOrSet\<close>.
\<close>

theorem set_failure_swallowed_raw_text_returned:
  "(\<not> available s \<longrightarrow>
      cache_set E key v ttl s = logger Error (CacheSetError (buildKey key)) s)
   \<and> (\<forall>s'. fetcher (logger Debug (CachePopulate key) s) = (Inr v, s') \<and> \<not> available s' \<longrightarrow>
        getOrSet_populate E key fetcher ttl s
          = (Inr v, logger Error (CacheSetError (buildKey key)) s'))
   \<and> (\<forall>c n. available s \<and> entries s (buildKey key) = Some (c, n) \<and> c \<noteq> [] \<and> json_parse E c = None \<longrightarrow>
        cache_get E key s = (Inr (JString c), logger Debug (CacheHit (buildKey key)) s)
        \<and> fst (getOrSet E key fetcher ttl s) = Inr (JString c))"
proof -
  have a: "\<not> available s \<longrightarrow>
      cache_set E key v ttl s = logger Error (CacheSetError (buildKey key)) s"
    by (simp add: cache_set_def cm_set_def Let_def)
  have b: "\<forall>s'. fetcher (logger Debug (CachePopulate key) s) = (Inr v, s') \<and> \<not> available s' \<longrightarrow>
        getOrSet_populate E key fetcher ttl s
          = (Inr v, logger Error (CacheSetError (buildKey key)) s')"
    by (simp add: getOrSet_populate_def cache_set_def cm_set_def Let_def)
  have c: "\<forall>c n. available s \<and> entries s (buildKey key) = Some (c, n) \<and> c \<noteq> [] \<and> json_parse E c = None \<longrightarrow>
        cache_get E key s = (Inr (JString c), logger Debug (CacheHit (buildKey key)) s)
        \<and> fst (getOrSet E key fetcher ttl s) = Inr (JString c)"
    by (simp add: getOrSet_def cache_get_def cm_get_def Let_def)
  from a b c show ?thesis
    by blast
qed

theorem set_failure_swallowed_raw_text_returned_witness:
  "\<not> available offline
   \<and> cache_set (sample_env []) ''k'' (JTask draft) 300 offline
       = logger Error (CacheSetError (buildKey ''k'')) offline
   \<and> findOne_fetcher ''t1'' (logger Debug (CachePopulate ''task:t1'') ((one_task draft)\<lparr>available := False\<rparr>))
       = (Inr (JTask draft),
          snd (findOne_fetcher ''t1'' (logger Debug (CachePopulate ''task:t1'') ((one_task draft)\<lparr>available := False\<rparr>))))
   \<and> fst (getOrSet_populate (sample_env []) ''task:t1'' (findOne_fetcher ''t1'') 300
            ((one_task draft)\<lparr>available := False\<rparr>)) = Inr (JTask draft)
   \<and> available (cache_set (sample_env []) ''greeting'' (JString ''hello'') 300 empty_state)
   \<and> entries (cache_set (sample_env []) ''greeting'' (JString ''hello'') 300 empty_state) (buildKey ''greeting'')
       = Some (''hello'', 300)
   \<and> json_parse (sample_env []) ''hello'' = None
   \<and> fst (getOrSet (sample_env []) ''greeting'' (findOne_fetcher ''t1'') 300
            (cache_set (sample_env []) ''greeting'' (JString ''hello'') 300 empty_state))
       = Inr (JString ''hello'')"
proof -
  let ?off = "(one_task draft)\<lparr>available := False\<rparr>"
  let ?raw = "cache_set (sample_env []) ''greeting'' (JString ''hello'') 300 empty_state"
  have f: "findOne_fetcher ''t1'' (logger Debug (CachePopulate ''task:t1'') ?off)
       = (Inr (JTask draft), snd (findOne_fetcher ''t1'' (logger Debug (CachePopulate ''task:t1'') ?off)))"
    and f': "\<not> available (snd (findOne_fetcher ''t1'' (logger Debug (CachePopulate ''task:t1'') ?off)))"
    by (simp_all add: findOne_fetcher_def repo_count_def repo_findOne_def logger_def one_task_def
        empty_state_def draft_def)
  have r: "available ?raw" "entries ?raw (buildKey ''greeting'') = Some (''hello'', 300)"
    "json_parse (sample_env []) ''hello'' = None" "''hello'' \<noteq> []"
    by (simp_all add: cache_set_def cm_set_def logger_def empty_state_def Let_def sample_env_def
        sample_parse_def)
  have o: "\<not> available offline"
    by (simp add: offline_def empty_state_def)
  from set_failure_swallowed_raw_text_returned
         [of offline "sample_env []" "''k''" "JTask draft" 300 "findOne_fetcher ''t1''"] o
  have 1: "cache_set (sample_env []) ''k'' (JTask draft) 300 offline
       = logger Error (CacheSetError (buildKey ''k'')) offline"
    by blast
  from set_failure_swallowed_raw_text_returned
         [of ?off "sample_env []" "''task:t1''" "JTask draft" 300 "findOne_fetcher ''t1''"] f f'
  have 2: "fst (getOrSet_populate (sample_env []) ''task:t1'' (findOne_fetcher ''t1'') 300 ?off)
       = Inr (JTask draft)"
    by simp
  from set_failure_swallowed_raw_text_returned
         [of ?raw "sample_env []" "''greeting''" "JTask draft" 300 "findOne_fetcher ''t1''"] r
  have 3: "fst (getOrSet (sample_env []) ''greeting'' (findOne_fetcher ''t1'') 300 ?raw)
       = Inr (JString ''hello'')"
    by blast
  from o 1 f 2 r 3 show ?thesis
    by blast
qed

text \<open>
  The claim as stated fails: a string stored by \<^verbatim>\<open>set\<close> is kept as it is, \<^verbatim>\<open>JSON.parse\<close>
  throws on it, and \<^verbatim>\<open>get\<close> returns the string, not a miss.
\<close>

theorem unparsable_text_is_a_hit_counterexample:
  "json_parse (sample_env []) ''hello'' = None
   \<and> fst (cache_get (sample_env []) ''greeting''
            (cache_set (sample_env []) ''greeting'' (JString ''hello'') 300 empty_state))
       = Inr (JString ''hello'')
   \<and> fst (has (sample_env []) ''greeting''
            (cache_set (sample_env []) ''greeting'' (JString ''hello'') 300 empty_state))
       = Inr True"
  by (simp add: has_def eval_defs)

subsection \<open>C9: the fields an update changes\<close>

text \<open>
  C9, as amended. \<^verbatim>\<open>update\<close> applies the patch, property by property, to the task its
  initial lookup returned, and saves the result. That task is the stored one when the
  cache has no entry for the id, and the task the entry parses to when it has one. In
  the saved task a title, description or due date given as a non-empty text, and a
  status or priority given at all, has the value of the patch; a property absent from
  the patch, or given as the empty text, has the value of the looked-up task.
\<close>

theorem update_patches_looked_up_task:
  assumes "findOne E i s = (Inr (JTask t), s1)"
  shows "fst (update E i dto s) = Inr (apply_patch dto t)
     \<and> rows (snd (update E i dto s)) (task_id t) = Some (apply_patch dto t)
     \<and> (entries s (buildKey (''task:'' @ i)) = None \<longrightarrow> rows s i = Some t)
     \<and> (\<forall>c n t'. entries s (buildKey (''task:'' @ i)) = Some (c, n) \<and> c \<noteq> []
           \<and> json_parse E c = Some (JTask t') \<longrightarrow> t = t')
     \<and> (\<forall>x. upd_title dto = Some x \<and> x \<noteq> [] \<longrightarrow> title (apply_patch dto t) = x)
     \<and> (upd_title dto = None \<or> upd_title dto = Some [] \<longrightarrow> title (apply_patch dto t) = title t)
     \<and> (\<forall>x. upd_description dto = Some x \<and> x \<noteq> [] \<longrightarrow> description (apply_patch dto t) = Some x)
     \<and> (upd_description dto = None \<or> upd_description dto = Some []
           \<longrightarrow> description (apply_patch dto t) = description t)
     \<and> (\<forall>x. upd_status dto = Some x \<longrightarrow> status (apply_patch dto t) = x)
     \<and> (upd_status dto = None \<longrightarrow> status (apply_patch dto t) = status t)
     \<and> (\<forall>x. upd_priority dto = Some x \<longrightarrow> priority (apply_patch dto t) = x)
     \<and> (upd_priority dto = None \<longrightarrow> priority (apply_patch dto t) = priority t)
     \<and> (\<forall>x. upd_dueDate dto = Some x \<and> x \<noteq> [] \<longrightarrow> dueDate (apply_patch dto t) = Some (NewDate x))
     \<and> (upd_dueDate dto = None \<or> upd_dueDate dto = Some []
           \<longrightarrow> dueDate (apply_patch dto t) = dueDate t)
     \<and> task_id (apply_patch dto t) = task_id t
     \<and> userId (apply_patch dto t) = userId t"
proof -
  have u: "update E i dto s = update_write dto (JTask t) s1"
    by (simp add: update_def assms)
  have res: "fst (update E i dto s) = Inr (apply_patch dto t)"
    and row: "rows (snd (update E i dto s)) (task_id t) = Some (apply_patch dto t)"
    by (simp_all add: u update_write_task)
  have cold: "entries s (buildKey (''task:'' @ i)) = None \<longrightarrow> rows s i = Some t"
    using assms
    by (auto simp: findOne_def getOrSet_def cache_get_def cm_get_def logger_def
        getOrSet_populate_def findOne_fetcher_def repo_count_def repo_findOne_def
        Let_def split: if_splits option.splits)
  have warm: "\<forall>c n t'. entries s (buildKey (''task:'' @ i)) = Some (c, n) \<and> c \<noteq> []
           \<and> json_parse E c = Some (JTask t') \<longrightarrow> t = t'"
    using assms
    by (auto simp: findOne_def getOrSet_def cache_get_def cm_get_def logger_def Let_def
        split: if_splits)
  have fields:
    "(\<forall>x. upd_title dto = Some x \<and> x \<noteq> [] \<longrightarrow> title (apply_patch dto t) = x)
     \<and> (upd_title dto = None \<or> upd_title dto = Some [] \<longrightarrow> title (apply_patch dto t) = title t)
     \<and> (\<forall>x. upd_description dto = Some x \<and> x \<noteq> [] \<longrightarrow> description (apply_patch dto t) = Some x)
     \<and> (upd_description dto = None \<or> upd_description dto = Some []
           \<longrightarrow> description (apply_patch dto t) = description t)
     \<and> (\<forall>x. upd_status dto = Some x \<longrightarrow> status (apply_patch dto t) = x)
     \<and> (upd_status dto = None \<longrightarrow> status (apply_patch dto t) = status t)
     \<and> (\<forall>x. upd_priority dto = Some x \<longrightarrow> priority (apply_patch dto t) = x)
     \<and> (upd_priority dto = None \<longrightarrow> priority (apply_patch dto t) = priority t)
     \<and> (\<forall>x. upd_dueDate dto = Some x \<and> x \<noteq> [] \<longrightarrow> dueDate (apply_patch dto t) = Some (NewDate x))
     \<and> (upd_dueDate dto = None \<or> upd_dueDate dto = Some []
           \<longrightarrow> dueDate (apply_patch dto t) = dueDate t)"
    by (auto simp: apply_patch_def truthy_def Let_def split: option.splits)
  from res row cold warm fields show ?thesis
    by simp
qed

theorem update_patches_looked_up_task_witness:
  "findOne (sample_env [draft]) ''t1'' stale_cache
     = (Inr (JTask draft), snd (findOne (sample_env [draft]) ''t1'' stale_cache))
   \<and> entries stale_cache (buildKey (''task:'' @ ''t1'')) = Some (task_json draft, 300)
   \<and> task_json draft \<noteq> [] \<and> json_parse (sample_env [draft]) (task_json draft) = Some (JTask draft)
   \<and> rows stale_cache ''t1'' = Some (draft\<lparr>title := ''Final''\<rparr>)
   \<and> upd_priority blank_title = Some HIGH \<and> upd_title blank_title = Some []
   \<and> upd_status blank_title = None
   \<and> rows (snd (update (sample_env [draft]) ''t1'' blank_title stale_cache)) (task_id draft)
       = Some (apply_patch blank_title draft)
   \<and> priority (apply_patch blank_title draft) = HIGH
   \<and> title (apply_patch blank_title draft) = title draft
   \<and> status (apply_patch blank_title draft) = status draft"
proof -
  have e: "entries stale_cache (buildKey (''task:'' @ ''t1'')) = Some (task_json draft, 300)"
    and a: "available stale_cache"
    and r: "rows stale_cache ''t1'' = Some (draft\<lparr>title := ''Final''\<rparr>)"
    by (simp_all add: stale_cache_def one_task_def empty_state_def buildKey_def namespace_def
        draft_def)
  have n: "task_json draft \<noteq> []"
    and p: "json_parse (sample_env [draft]) (task_json draft) = Some (JTask draft)"
    by (simp_all add: sample_env_def sample_parse_def task_json_def)
  have l: "findOne (sample_env [draft]) ''t1'' stale_cache
     = (Inr (JTask draft), snd (findOne (sample_env [draft]) ''t1'' stale_cache))"
    using findOne_hit [OF a e n p] by simp
  have d: "upd_priority blank_title = Some HIGH" "upd_title blank_title = Some []"
    "upd_status blank_title = None"
    by (simp_all add: blank_title_def no_patch_def)
  from update_patches_looked_up_task [OF l, of blank_title] l e n p r d show ?thesis
    by simp
qed

text \<open>
  The guards of \<^verbatim>\<open>update\<close> test the value, not the presence, of a text property: a patch
  whose texts are all empty changes nothing.
\<close>

lemma empty_texts_are_skipped:
  "apply_patch (no_patch\<lparr>upd_title := Some [], upd_description := Some [], upd_dueDate := Some []\<rparr>) t
     = t"
  by (simp add: apply_patch_def truthy_def no_patch_def)

text \<open>
  The claim as stated fails: after a retitling, an update of the priority alone writes
  the old title back, because it patches the copy that the cache still holds.
\<close>

theorem absent_field_reverts_counterexample:
  "rows (snd (update (sample_env [draft]) ''t1'' retitle (one_task draft))) ''t1''
     = Some (draft\<lparr>title := ''Final''\<rparr>)
   \<and> upd_title raise_priority = None
   \<and> rows (snd (update (sample_env [draft]) ''t1'' raise_priority
              (snd (update (sample_env [draft]) ''t1'' retitle (one_task draft))))) ''t1''
     = Some (draft\<lparr>priority := HIGH\<rparr>)
   \<and> title (draft\<lparr>priority := HIGH\<rparr>) = ''Draft''"
  by (simp add: eval_defs draft_def retitle_def raise_priority_def no_patch_def)

subsection \<open>C10: update and remove of an unknown id\<close>

text \<open>
  C10. For an id with no row in the store and no cache entry, \<^verbatim>\<open>update\<close> and \<^verbatim>\<open>remove\<close>
  are to fail with \<^verbatim>\<open>NotFoundException\<close>. They do not when the cache backend rejects its
  calls: \<^verbatim>\<open>get\<close> awaits the backend outside any \<^verbatim>\<open>try\<close>, unlike \<^verbatim>\<open>set\<close>, and the error of
  the backend is what \<^verbatim>\<open>update\<close> and \<^verbatim>\<open>remove\<close> throw. Evaluated on the empty store with
  such a backend:
\<close>

theorem unknown_id_backend_error:
  "rows offline ''t9'' = None
   \<and> entries offline (buildKey (''task:'' @ ''t9'')) = None
   \<and> available offline = False
   \<and> update (sample_env []) ''t9'' retitle offline = (Inl CacheBackendError, offline)
   \<and> remove (sample_env []) ''t9'' offline = (Inl CacheBackendError, offline)"
  by (simp add: offline_def empty_state_def update_def remove_def findOne_def getOrSet_def
      cache_get_def cm_get_def Let_def)

text \<open>
  On a backend that answers, the two calls do as the claim says: both fail with the
  \<^verbatim>\<open>NotFoundException\<close> thrown by the fetcher of the initial \<^verbatim>\<open>findOne\<close>. The rows of the
  store, the entries of the cache and the jobs of the queue are as before; the only
  call the repository received is the count query, so the writes issued to it are those
  issued before.
\<close>

theorem update_remove_not_found:
  assumes "available s" and "rows s i = None" and "entries s (buildKey (''task:'' @ i)) = None"
  shows "fst (update E i dto s) = Inl (NotFoundException i)
    \<and> rows (snd (update E i dto s)) = rows s
    \<and> entries (snd (update E i dto s)) = entries s
    \<and> jobs (snd (update E i dto s)) = jobs s
    \<and> db_calls (snd (update E i dto s)) = db_calls s @ [Count i]
    \<and> filter is_write (db_calls (snd (update E i dto s))) = filter is_write (db_calls s)
    \<and> fst (remove E i s) = Inl (NotFoundException i)
    \<and> rows (snd (remove E i s)) = rows s
    \<and> entries (snd (remove E i s)) = entries s
    \<and> jobs (snd (remove E i s)) = jobs s
    \<and> db_calls (snd (remove E i s)) = db_calls s @ [Count i]
    \<and> filter is_write (db_calls (snd (remove E i s))) = filter is_write (db_calls s)"
proof -
  note miss = findOne_cold_missing [OF assms(1) assms(3) assms(2), of E]
  have u: "update E i dto s = (Inl (NotFoundException i), snd (findOne E i s))"
    by (simp add: update_def miss)
  have r: "remove E i s = (Inl (NotFoundException i), snd (findOne E i s))"
    by (simp add: remove_def miss)
  show ?thesis
    by (simp add: u r miss)
qed

theorem update_remove_not_found_witness:
  "available empty_state \<and> rows empty_state ''t9'' = None
   \<and> entries empty_state (buildKey (''task:'' @ ''t9'')) = None
   \<and> fst (update (sample_env []) ''t9'' retitle empty_state) = Inl (NotFoundException ''t9'')
   \<and> fst (remove (sample_env []) ''t9'' empty_state) = Inl (NotFoundException ''t9'')
   \<and> db_calls (snd (update (sample_env []) ''t9'' retitle empty_state)) = [Count ''t9'']
   \<and> jobs (snd (update (sample_env []) ''t9'' retitle empty_state)) = []"
  using update_remove_not_found [of empty_state "''t9''" "sample_env []" retitle]
  by (simp add: empty_state_def)

end
